theory Spec2Isabelle
  imports Complex_Main "HOL-Library.Log_Nat"
begin

section \<open>Python numbers, division and rounding\<close>

text \<open>
  The calculator in \<^verbatim>\<open>app.py\<close> is written over Python's numeric tower: its arguments
  may be \<^verbatim>\<open>int\<close>, \<^verbatim>\<open>float\<close> or \<^verbatim>\<open>Fraction\<close> values, and every finite value of
  these types is a rational number. Numbers are therefore modelled as \<^typ>\<open>rat\<close>, with
  exact arithmetic: this is what Python computes on \<^verbatim>\<open>int\<close> and \<^verbatim>\<open>Fraction\<close> arguments,
  and it idealises binary64 \<^verbatim>\<open>float\<close> arithmetic (no representation error, no overflow
  to infinity). On \<^verbatim>\<open>float\<close> arguments the two can differ in the last digit when the exact
  value lies on or next to a tie of the rounding; the scenarios below are therefore also
  run on a model of binary64.

  The only operation of the function that can raise is true division \<^verbatim>\<open>/\<close>, with
  \<^verbatim>\<open>ZeroDivisionError\<close>. \<open>NameError\<close> is what reading an unbound name raises, and
  \<open>InvalidInput\<close> is the failure kind that the specification names; no statement of
  the source raises it.
\<close>

datatype py_error = ZeroDivisionError | NameError | InvalidInput

definition py_truediv :: "rat \<Rightarrow> rat \<Rightarrow> py_error + rat" where
  "py_truediv a b = (if b = 0 then Inl ZeroDivisionError else Inr (a / b))"

text \<open>
  Python's \<^verbatim>\<open>round(x)\<close>: the nearest integer, a tie going to the even neighbour.
  The case order is that of \<^verbatim>\<open>Fraction.__round__\<close>: compare twice the remainder above
  the floor with one, and look at the parity of the floor only in the tie.
\<close>

definition round_half_even :: "rat \<Rightarrow> int" where
  "round_half_even x =
     (let fl = \<lfloor>x\<rfloor>; remainder = x - of_int fl
      in if remainder * 2 < 1 then fl
         else if 1 < remainder * 2 then fl + 1
         else if even fl then fl
         else fl + 1)"

text \<open>Python's \<^verbatim>\<open>round(x, ndigits)\<close> for \<^verbatim>\<open>ndigits >= 0\<close>: shift, round, shift back.\<close>

definition py_round :: "rat \<Rightarrow> nat \<Rightarrow> rat" where
  "py_round x ndigits = of_int (round_half_even (x * 10 ^ ndigits)) / 10 ^ ndigits"


section \<open>The sizing function\<close>

text \<open>The dictionary returned by \<^verbatim>\<open>calculate_microgrid_size\<close> always has the same three keys.\<close>

record sizing_result =
  battery_capacity_kwh :: rat
  solar_capacity_kw :: rat
  inverter_size_kw :: rat

text \<open>
  The local variables of the function body, each as a function of the parameters it is
  computed from. \<^verbatim>\<open>a * b / 24 / c * d\<close> associates to the left.
\<close>

definition adjusted_daily_usage :: "rat \<Rightarrow> rat \<Rightarrow> rat" where
  "adjusted_daily_usage daily_kwh_usage system_losses = daily_kwh_usage * (1 + system_losses)"

definition adjusted_peak_demand :: "rat \<Rightarrow> rat \<Rightarrow> rat" where
  "adjusted_peak_demand peak_kw_demand system_losses = peak_kw_demand * (1 + system_losses)"

definition required_battery_capacity ::
  "rat \<Rightarrow> rat \<Rightarrow> rat \<Rightarrow> rat \<Rightarrow> rat \<Rightarrow> py_error + rat" where
  "required_battery_capacity daily_kwh_usage backup_hours battery_depth_of_discharge
       system_losses safety_factor =
     (case py_truediv (adjusted_daily_usage daily_kwh_usage system_losses * backup_hours / 24)
             battery_depth_of_discharge of
        Inl e \<Rightarrow> Inl e
      | Inr q \<Rightarrow> Inr (q * safety_factor))"

definition required_solar_capacity :: "rat \<Rightarrow> rat \<Rightarrow> rat \<Rightarrow> rat \<Rightarrow> py_error + rat" where
  "required_solar_capacity daily_kwh_usage solar_peak_hours system_losses safety_factor =
     (case py_truediv (adjusted_daily_usage daily_kwh_usage system_losses) solar_peak_hours of
        Inl e \<Rightarrow> Inl e
      | Inr q \<Rightarrow> Inr (q * safety_factor))"

definition required_inverter_size :: "rat \<Rightarrow> rat \<Rightarrow> rat \<Rightarrow> rat" where
  "required_inverter_size peak_kw_demand system_losses safety_factor =
     adjusted_peak_demand peak_kw_demand system_losses * safety_factor"

text \<open>
  The function itself. The battery capacity is computed before the solar capacity, so
  a zero depth of discharge raises before a zero number of peak hours is looked at.
\<close>

definition calculate_microgrid_size ::
  "rat \<Rightarrow> rat \<Rightarrow> rat \<Rightarrow> rat \<Rightarrow> rat \<Rightarrow> rat \<Rightarrow> rat \<Rightarrow> py_error + sizing_result" where
  "calculate_microgrid_size daily_kwh_usage peak_kw_demand backup_hours solar_peak_hours
       battery_depth_of_discharge system_losses safety_factor =
     (case required_battery_capacity daily_kwh_usage backup_hours battery_depth_of_discharge
             system_losses safety_factor of
        Inl e \<Rightarrow> Inl e
      | Inr battery \<Rightarrow>
          (case required_solar_capacity daily_kwh_usage solar_peak_hours system_losses
                  safety_factor of
             Inl e \<Rightarrow> Inl e
           | Inr solar \<Rightarrow>
               Inr \<lparr>battery_capacity_kwh = py_round battery 1,
                    solar_capacity_kw = py_round solar 1,
                    inverter_size_kw =
                      py_round (required_inverter_size peak_kw_demand system_losses
                                  safety_factor) 1\<rparr>))"

text \<open>The default values of the five keyword parameters.\<close>

definition default_backup_hours :: rat where
  "default_backup_hours = 24"

definition default_solar_peak_hours :: rat where
  "default_solar_peak_hours = 5"

definition default_battery_depth_of_discharge :: rat where
  "default_battery_depth_of_discharge = 0.8"

definition default_system_losses :: rat where
  "default_system_losses = 0.15"

definition default_safety_factor :: rat where
  "default_safety_factor = 1.2"

text \<open>A call that passes the two positional arguments only.\<close>

definition calculate_microgrid_size_default :: "rat \<Rightarrow> rat \<Rightarrow> py_error + sizing_result" where
  "calculate_microgrid_size_default daily_kwh_usage peak_kw_demand =
     calculate_microgrid_size daily_kwh_usage peak_kw_demand default_backup_hours
       default_solar_peak_hours default_battery_depth_of_discharge default_system_losses
       default_safety_factor"


section \<open>The function over binary64 arithmetic\<close>

text \<open>
  A finite binary64 number is an integer multiple of a power of two, with fewer than 53
  bits in the multiple and an exponent of at least \<open>-1074\<close>. Each \<^verbatim>\<open>float\<close> operation of
  Python returns the exact result rounded to the nearest such number, ties to the even
  multiple. The exponent is not bounded above here: overflow to infinity is left out.
  \<open>log2_floor x\<close> is the \<open>k\<close> with \<open>2 ^ k \<le> x < 2 ^ (k + 1)\<close>, for positive \<open>x\<close>.
\<close>

definition log2_floor :: "rat \<Rightarrow> int" where
  "log2_floor x = (if 1 \<le> x then bitlen \<lfloor>x\<rfloor> - 1 else - bitlen (\<lceil>1 / x\<rceil> - 1))"

definition float64 :: "rat \<Rightarrow> rat" where
  "float64 x =
     (if x = 0 then 0
      else let e = max (log2_floor \<bar>x\<bar> - 52) (- 1074)
           in of_int (round_half_even (x * 2 powi (- e))) * 2 powi e)"

definition float_truediv :: "rat \<Rightarrow> rat \<Rightarrow> py_error + rat" where
  "float_truediv a b = (if b = 0 then Inl ZeroDivisionError else Inr (float64 (a / b)))"

text \<open>
  The same body with every operation rounded; \<^verbatim>\<open>round(x, 1)\<close> on a \<^verbatim>\<open>float\<close> is the
  binary64 number nearest to the decimal rounding of the exact value of \<^verbatim>\<open>x\<close>.
\<close>

definition float_calculate_microgrid_size ::
  "rat \<Rightarrow> rat \<Rightarrow> rat \<Rightarrow> rat \<Rightarrow> rat \<Rightarrow> rat \<Rightarrow> rat \<Rightarrow> py_error + sizing_result" where
  "float_calculate_microgrid_size daily_kwh_usage peak_kw_demand backup_hours solar_peak_hours
       battery_depth_of_discharge system_losses safety_factor =
     (let adjusted_daily_usage = float64 (daily_kwh_usage * float64 (1 + system_losses));
          adjusted_peak_demand = float64 (peak_kw_demand * float64 (1 + system_losses))
      in case float_truediv (float64 (float64 (adjusted_daily_usage * backup_hours) / 24))
                battery_depth_of_discharge of
           Inl e \<Rightarrow> Inl e
         | Inr q \<Rightarrow>
             (case float_truediv adjusted_daily_usage solar_peak_hours of
                Inl e \<Rightarrow> Inl e
              | Inr q' \<Rightarrow>
                  Inr \<lparr>battery_capacity_kwh = float64 (py_round (float64 (q * safety_factor)) 1),
                       solar_capacity_kw = float64 (py_round (float64 (q' * safety_factor)) 1),
                       inverter_size_kw =
                         float64 (py_round (float64 (adjusted_peak_demand * safety_factor)) 1)\<rparr>))"


section \<open>The script around the function\<close>

text \<open>
  \<^verbatim>\<open>EXAMPLE_PROFILES\<close>: a dictionary from the name of a business type to its daily usage
  and peak demand, both Python integers.
\<close>

record profile =
  daily_kwh :: int
  peak_kw :: int

definition EXAMPLE_PROFILES :: "string \<rightharpoonup> profile" where
  "EXAMPLE_PROFILES =
     map_of
       [(''Small Retail Store'', \<lparr>daily_kwh = 50, peak_kw = 8\<rparr>),
        (''Restaurant'', \<lparr>daily_kwh = 200, peak_kw = 25\<rparr>),
        (''Small Office'', \<lparr>daily_kwh = 75, peak_kw = 12\<rparr>),
        (''Custom'', \<lparr>daily_kwh = 100, peak_kw = 15\<rparr>)]"

text \<open>
  The branch of the script for a business type other than \<^verbatim>\<open>Custom\<close>: both inputs are
  looked up in \<^verbatim>\<open>EXAMPLE_PROFILES\<close> and passed on with the five slider values. A name
  that is not a key raises \<^verbatim>\<open>KeyError\<close>, here \<open>None\<close>.
\<close>

definition profile_sizing ::
  "string \<Rightarrow> rat \<Rightarrow> rat \<Rightarrow> rat \<Rightarrow> rat \<Rightarrow> rat \<Rightarrow> (py_error + sizing_result) option" where
  "profile_sizing business_type backup_hours solar_peak_hours battery_dod system_losses
       safety_factor =
     (case EXAMPLE_PROFILES business_type of
        None \<Rightarrow> None
      | Some pr \<Rightarrow>
          Some (calculate_microgrid_size (of_int (daily_kwh pr)) (of_int (peak_kw pr))
                  backup_hours solar_peak_hours battery_dod system_losses safety_factor))"

text \<open>
  The ranges of the five sliders (minimum and maximum of each), which are the domains
  of the configuration, and the specification's precondition on the two inputs: both
  positive. The number inputs of the script are stricter, at least 1.0 and 0.5.
\<close>

definition config_in_domain :: "rat \<Rightarrow> rat \<Rightarrow> rat \<Rightarrow> rat \<Rightarrow> rat \<Rightarrow> bool" where
  "config_in_domain backup_hours solar_peak_hours battery_depth_of_discharge system_losses
       safety_factor \<longleftrightarrow>
     12 \<le> backup_hours \<and> backup_hours \<le> 72 \<and>
     3.0 \<le> solar_peak_hours \<and> solar_peak_hours \<le> 7.0 \<and>
     0.5 \<le> battery_depth_of_discharge \<and> battery_depth_of_discharge \<le> 0.9 \<and>
     0.1 \<le> system_losses \<and> system_losses \<le> 0.3 \<and>
     1.1 \<le> safety_factor \<and> safety_factor \<le> 1.5"

definition valid_inputs :: "rat \<Rightarrow> rat \<Rightarrow> bool" where
  "valid_inputs daily_kwh_usage peak_kw_demand \<longleftrightarrow> 0 < daily_kwh_usage \<and> 0 < peak_kw_demand"


section \<open>The function body, with its name resolution\<close>













section \<open>The algorithm as the specification words it\<close>








section \<open>Rounding half to even\<close>

text \<open>
  The rounded integer is within one half of the argument. Monotonicity, the behaviour at
  ties and the bounds under scaling all follow from this and from the case analysis of
  the definition.
\<close>

lemma round_half_even_near:
  "of_int (round_half_even x) - 1 / 2 \<le> x \<and> x \<le> of_int (round_half_even x) + 1 / 2"
proof -
  have "of_int \<lfloor>x\<rfloor> \<le> x" "x < of_int \<lfloor>x\<rfloor> + 1"
    by linarith+
  then show ?thesis
    by (auto simp: round_half_even_def Let_def; linarith)
qed

lemma round_half_even_mono:
  assumes "x \<le> y"
  shows "round_half_even x \<le> round_half_even y"
proof (rule ccontr)
  assume "\<not> round_half_even x \<le> round_half_even y"
  then have "round_half_even y + 1 \<le> round_half_even x"
    by simp
  then have le: "(of_int (round_half_even y) :: rat) + 1 \<le> of_int (round_half_even x)"
    by (metis of_int_1 of_int_add of_int_le_iff)
  from round_half_even_near [of x] round_half_even_near [of y] le assms
  have "x = y"
    by linarith
  with \<open>\<not> round_half_even x \<le> round_half_even y\<close> show False
    by simp
qed




lemma py_round_mono: "x \<le> y \<Longrightarrow> py_round x n \<le> py_round y n"
  by (simp add: py_round_def divide_right_mono round_half_even_mono)










section \<open>The function in closed form\<close>

lemmas sizing_defs =
  calculate_microgrid_size_default_def calculate_microgrid_size_def
  required_battery_capacity_def required_solar_capacity_def required_inverter_size_def
  adjusted_daily_usage_def adjusted_peak_demand_def py_truediv_def
  default_backup_hours_def default_solar_peak_hours_def
  default_battery_depth_of_discharge_def default_system_losses_def default_safety_factor_def

lemma floor_rat_numeral_divide [simp]:
  "\<lfloor>numeral a / numeral b :: rat\<rfloor> = numeral a div numeral b"
  using floor_divide_of_int_eq [of "numeral a" "numeral b", where ?'a = rat] by simp

lemma calculate_microgrid_size_cases:
  "calculate_microgrid_size d p b s dod l sf =
     (if dod = 0 \<or> s = 0 then Inl ZeroDivisionError
      else Inr \<lparr>battery_capacity_kwh = py_round (d * (1 + l) * b / 24 / dod * sf) 1,
                solar_capacity_kw = py_round (d * (1 + l) / s * sf) 1,
                inverter_size_kw = py_round (p * (1 + l) * sf) 1\<rparr>)"
  by (simp add: sizing_defs)



lemma in_domain_positive:
  assumes "config_in_domain b s dod l sf"
  shows "0 < b" "0 < s" "0 < dod" "0 < l" "0 < sf"
  using assms by (simp_all add: config_in_domain_def)

lemma raw_battery_mono:
  fixes d d' :: rat
  assumes "0 \<le> d" "d \<le> d'" "0 \<le> 1 + l" "l \<le> l'" "0 \<le> b" "b \<le> b'"
    and "0 < dod'" "dod' \<le> dod" "0 \<le> sf" "sf \<le> sf'"
  shows "d * (1 + l) * b / 24 / dod * sf \<le> d' * (1 + l') * b' / 24 / dod' * sf'"
proof -
  have a: "d * (1 + l) \<le> d' * (1 + l')"
    using assms by (intro mult_mono) simp_all
  have a0: "0 \<le> d * (1 + l)"
    using assms by simp
  have b: "d * (1 + l) * b \<le> d' * (1 + l') * b'"
    using assms a a0 by (intro mult_mono) simp_all
  have b0: "0 \<le> d * (1 + l) * b"
    using assms a0 by simp
  have c: "d * (1 + l) * b / 24 / dod \<le> d' * (1 + l') * b' / 24 / dod'"
    using assms b b0 by (intro frac_le divide_right_mono) simp_all
  have c0: "0 \<le> d * (1 + l) * b / 24 / dod"
    using assms b0 by simp
  show ?thesis
    using assms c c0 by (intro mult_mono) simp_all
qed

lemma raw_solar_mono:
  fixes d d' :: rat
  assumes "0 \<le> d" "d \<le> d'" "0 \<le> 1 + l" "l \<le> l'"
    and "0 < s'" "s' \<le> s" "0 \<le> sf" "sf \<le> sf'"
  shows "d * (1 + l) / s * sf \<le> d' * (1 + l') / s' * sf'"
proof -
  have a: "d * (1 + l) \<le> d' * (1 + l')"
    using assms by (intro mult_mono) simp_all
  have a0: "0 \<le> d * (1 + l)"
    using assms by simp
  have c: "d * (1 + l) / s \<le> d' * (1 + l') / s'"
    using assms a a0 by (intro frac_le) simp_all
  have c0: "0 \<le> d * (1 + l) / s"
    using assms a0 by simp
  show ?thesis
    using assms c c0 by (intro mult_mono) simp_all
qed

lemma raw_inverter_mono:
  fixes p p' :: rat
  assumes "0 \<le> p" "p \<le> p'" "0 \<le> 1 + l" "l \<le> l'" "0 \<le> sf" "sf \<le> sf'"
  shows "p * (1 + l) * sf \<le> p' * (1 + l') * sf'"
proof -
  have a: "p * (1 + l) \<le> p' * (1 + l')"
    using assms by (intro mult_mono) simp_all
  have a0: "0 \<le> p * (1 + l)"
    using assms by simp
  show ?thesis
    using assms a a0 by (intro mult_mono) simp_all
qed



section \<open>The algorithm\<close>




section \<open>Invalid input\<close>





section \<open>Scenarios\<close>

text \<open>
  C3: with a daily usage of 100 kWh, a peak demand of 15 kW and the configuration
  24 h, 5.0 h, 0.8, 0.15, 1.2, the function returns a battery capacity of 172.5 kWh,
  a solar capacity of 27.6 kW and an inverter size of 20.7 kW.
\<close>

theorem default_scenario:
  "calculate_microgrid_size 100 15 24 5.0 0.8 0.15 1.2 =
     Inr \<lparr>battery_capacity_kwh = 172.5, solar_capacity_kw = 27.6, inverter_size_kw = 20.7\<rparr>"
  by (simp add: sizing_defs py_round_def round_half_even_def)

text \<open>
  C4: the profile \<^verbatim>\<open>Restaurant\<close> is the pair 200 kWh and 25 kW, and the function on that
  pair with the default configuration returns 345.0 kWh, 55.2 kW and 34.5 kW.
\<close>

theorem restaurant_preset:
  "EXAMPLE_PROFILES ''Restaurant'' = Some \<lparr>daily_kwh = 200, peak_kw = 25\<rparr> \<and>
   profile_sizing ''Restaurant'' 24 5.0 0.8 0.15 1.2 =
     Some (Inr \<lparr>battery_capacity_kwh = 345.0, solar_capacity_kw = 55.2,
                inverter_size_kw = 34.5\<rparr>) \<and>
   calculate_microgrid_size_default 200 25 =
     Inr \<lparr>battery_capacity_kwh = 345.0, solar_capacity_kw = 55.2, inverter_size_kw = 34.5\<rparr>"
  by (simp add: EXAMPLE_PROFILES_def profile_sizing_def sizing_defs py_round_def
      round_half_even_def)

text \<open>
  The same two scenarios, and the call with a daily usage of zero, on binary64
  arguments: the results are the binary64 numbers nearest to the values above (172.5,
  345 and 34.5 are binary64 numbers themselves), which Python prints as 172.5, 27.6, 20.7
  and 345.0, 55.2, 34.5.
\<close>

lemma default_scenario_binary64:
  "float_calculate_microgrid_size 100 15 24 5 (float64 0.8) (float64 0.15) (float64 1.2) =
     Inr \<lparr>battery_capacity_kwh = 172.5, solar_capacity_kw = float64 27.6,
          inverter_size_kw = float64 20.7\<rparr>"
  by code_simp

lemma zero_usage_binary64:
  "float_calculate_microgrid_size 0 15 24 5 (float64 0.8) (float64 0.15) (float64 1.2) =
     Inr \<lparr>battery_capacity_kwh = 0, solar_capacity_kw = 0, inverter_size_kw = float64 20.7\<rparr>"
  by code_simp

lemma restaurant_preset_binary64:
  "float_calculate_microgrid_size 200 25 24 5 (float64 0.8) (float64 0.15) (float64 1.2) =
     Inr \<lparr>battery_capacity_kwh = 345, solar_capacity_kw = float64 55.2,
          inverter_size_kw = 34.5\<rparr>"
  by code_simp


section \<open>Monotonicity and scaling\<close>

text \<open>
  C5: for valid inputs and configurations in their domains, each of the three results
  does not decrease when the daily usage, the peak demand, the backup hours, the system
  losses or the safety factor grow, and does not increase when the peak hours or the
  depth of discharge grow. The theorem lets all seven vary at once; with six of them
  equal it is the statement for one parameter.
\<close>

theorem results_monotone:
  assumes "valid_inputs d p" and "config_in_domain b s dod l sf"
    and "valid_inputs d' p'" and "config_in_domain b' s' dod' l' sf'"
    and "d \<le> d'" and "p \<le> p'" and "b \<le> b'" and "l \<le> l'" and "sf \<le> sf'"
    and "s' \<le> s" and "dod' \<le> dod"
  shows "\<exists>r r'. calculate_microgrid_size d p b s dod l sf = Inr r \<and>
            calculate_microgrid_size d' p' b' s' dod' l' sf' = Inr r' \<and>
            battery_capacity_kwh r \<le> battery_capacity_kwh r' \<and>
            solar_capacity_kw r \<le> solar_capacity_kw r' \<and>
            inverter_size_kw r \<le> inverter_size_kw r'"
proof -
  note pos = in_domain_positive [OF assms(2)] in_domain_positive [OF assms(4)]
  have dp: "0 \<le> d" "0 \<le> p" "0 \<le> 1 + l"
    using assms(1) pos by (simp_all add: valid_inputs_def)
  have "py_round (d * (1 + l) * b / 24 / dod * sf) 1
      \<le> py_round (d' * (1 + l') * b' / 24 / dod' * sf') 1"
    using assms dp pos by (intro py_round_mono raw_battery_mono) simp_all
  moreover have "py_round (d * (1 + l) / s * sf) 1 \<le> py_round (d' * (1 + l') / s' * sf') 1"
    using assms dp pos by (intro py_round_mono raw_solar_mono) simp_all
  moreover have "py_round (p * (1 + l) * sf) 1 \<le> py_round (p' * (1 + l') * sf') 1"
    using assms dp pos by (intro py_round_mono raw_inverter_mono) simp_all
  ultimately show ?thesis
    using pos by (simp add: calculate_microgrid_size_cases)
qed

theorem results_monotone_witness:
  "\<exists>r r'. calculate_microgrid_size 100 15 24 5 0.8 0.15 1.2 = Inr r \<and>
      calculate_microgrid_size 200 25 72 3 0.5 0.3 1.5 = Inr r' \<and>
      battery_capacity_kwh r \<le> battery_capacity_kwh r' \<and>
      solar_capacity_kw r \<le> solar_capacity_kw r' \<and>
      inverter_size_kw r \<le> inverter_size_kw r'"
  using results_monotone [of 100 15 24 5 "0.8" "0.15" "1.2" 200 25 72 3 "0.5" "0.3" "1.5"]
  by (simp add: valid_inputs_def config_in_domain_def)






section \<open>Rounded results\<close>




section \<open>Purity\<close>



section \<open>Division by zero\<close>



end
